theory Spec2Isabelle
  imports Complex_Main
begin

section \<open>ShopHub: storefront schema, row policies, cart and checkout\<close>

text \<open>
  The storefront keeps its state in five relations of a managed relational database and
  issues every business operation as a query from the browser. The model below has
  \<^item> the rows of \<^verbatim>\<open>supabase/migrations/20260216193806_create_ecommerce_schema.sql\<close> as records
    and the tables as lists of rows (insertion order kept);
  \<^item> the row-level security policies of the same file as predicates over the caller and
    the row, and the four SQL commands as functions that consult them;
  \<^item> the handlers of the React components (\<^verbatim>\<open>Checkout\<close>, \<^verbatim>\<open>ProductDetail\<close>,
    \<^verbatim>\<open>ProductCatalog\<close>, \<^verbatim>\<open>ShoppingCart\<close>) as functions from the database state to the new
    database state and the effects the component shows.

  Identifiers are the strings the TypeScript interfaces declare (\<^verbatim>\<open>id: string\<close>). Quantities
  are integers and prices and totals are rationals: the \<^verbatim>\<open>numeric\<close> columns are exact decimals,
  and neither the rounding of JavaScript doubles nor the range of \<^verbatim>\<open>integer\<close> columns is
  modelled. The \<^verbatim>\<open>created_at\<close> columns and the \<^verbatim>\<open>categories\<close> table are read by no handler
  modelled here and are left out.
\<close>

subsection \<open>Rows and tables\<close>

type_synonym uuid = string

record product_row =
  p_id :: uuid
  p_name :: string
  p_description :: string
  p_price :: rat
  p_image_url :: string
  p_category_id :: "uuid option"
  p_stock :: int
  p_featured :: bool

record cart_item_row =
  ci_id :: uuid
  ci_user_id :: uuid
  ci_product_id :: uuid
  ci_quantity :: int

record order_row =
  o_id :: uuid
  o_user_id :: uuid
  o_total :: rat
  o_status :: string
  o_customer_name :: string
  o_customer_email :: string
  o_customer_address :: string

record order_item_row =
  oi_id :: uuid
  oi_order_id :: uuid
  oi_product_id :: uuid
  oi_quantity :: int
  oi_price :: rat

record db =
  products :: "product_row list"
  cart_items :: "cart_item_row list"
  orders :: "order_row list"
  order_items :: "order_item_row list"

text \<open>
  \<^verbatim>\<open>DEFAULT gen_random_uuid()\<close>: the key of a new row is a value no row of the table has.
  The model picks one deterministically: a string longer than every key in use.
\<close>

definition gen_random_uuid :: "uuid list \<Rightarrow> uuid" where
  "gen_random_uuid used = replicate (Suc (foldr (\<lambda>k n. max (length k) n) used 0)) CHR ''0''"

datatype db_error =
  StorageFailure | RlsViolation | CheckViolation | ForeignKeyViolation | UniqueViolation

subsection \<open>Row-level security\<close>

text \<open>
  \<^verbatim>\<open>auth.uid()\<close> is the caller: \<open>None\<close> for the \<^verbatim>\<open>anon\<close> role, \<open>Some u\<close> for an authenticated
  session of user \<open>u\<close>. Row-level security is enabled on every table, so a command with no
  policy for it is denied on every row.
\<close>

datatype command = SELECT | INSERT | UPDATE | DELETE

definition products_policy :: "uuid option \<Rightarrow> command \<Rightarrow> product_row \<Rightarrow> bool" where
  "products_policy uid cmd row = (case cmd of SELECT \<Rightarrow> True | _ \<Rightarrow> False)"

definition cart_items_policy :: "uuid option \<Rightarrow> command \<Rightarrow> cart_item_row \<Rightarrow> bool" where
  "cart_items_policy uid cmd row = (uid = Some (ci_user_id row))"

definition orders_policy :: "uuid option \<Rightarrow> command \<Rightarrow> order_row \<Rightarrow> bool" where
  "orders_policy uid cmd row =
     (case cmd of
        SELECT \<Rightarrow> uid = Some (o_user_id row)
      | INSERT \<Rightarrow> uid = Some (o_user_id row)
      | UPDATE \<Rightarrow> False
      | DELETE \<Rightarrow> False)"

definition own_order_exists :: "order_row list \<Rightarrow> uuid option \<Rightarrow> uuid \<Rightarrow> bool" where
  "own_order_exists ords uid oid =
     list_ex (\<lambda>ord. o_id ord = oid \<and> Some (o_user_id ord) = uid) ords"

definition order_items_policy ::
  "order_row list \<Rightarrow> uuid option \<Rightarrow> command \<Rightarrow> order_item_row \<Rightarrow> bool" where
  "order_items_policy ords uid cmd row =
     (case cmd of
        SELECT \<Rightarrow> own_order_exists ords uid (oi_order_id row)
      | INSERT \<Rightarrow> own_order_exists ords uid (oi_order_id row)
      | UPDATE \<Rightarrow> False
      | DELETE \<Rightarrow> False)"

text \<open>
  The four commands under a policy. \<open>flt\<close> is the caller's \<^verbatim>\<open>WHERE\<close> clause (any predicate:
  the caller may supply any row identifier). A \<^verbatim>\<open>USING\<close> policy silently hides the rows it
  rejects; a \<^verbatim>\<open>WITH CHECK\<close> policy fails the statement when a written row violates it.
\<close>

definition rls_select :: "('r \<Rightarrow> bool) \<Rightarrow> ('r \<Rightarrow> bool) \<Rightarrow> 'r list \<Rightarrow> 'r list" where
  "rls_select using flt rows = filter (\<lambda>r. using r \<and> flt r) rows"

definition rls_delete :: "('r \<Rightarrow> bool) \<Rightarrow> ('r \<Rightarrow> bool) \<Rightarrow> 'r list \<Rightarrow> 'r list" where
  "rls_delete using flt rows = filter (\<lambda>r. \<not> (using r \<and> flt r)) rows"

definition rls_update ::
  "('r \<Rightarrow> bool) \<Rightarrow> ('r \<Rightarrow> bool) \<Rightarrow> ('r \<Rightarrow> bool) \<Rightarrow> ('r \<Rightarrow> 'r) \<Rightarrow> 'r list \<Rightarrow> db_error + 'r list" where
  "rls_update using chk flt upd rows =
     (if list_ex (\<lambda>r. using r \<and> flt r \<and> \<not> chk (upd r)) rows then Inl RlsViolation
      else Inr (map (\<lambda>r. if using r \<and> flt r then upd r else r) rows))"

definition rls_insert :: "('r \<Rightarrow> bool) \<Rightarrow> 'r list \<Rightarrow> 'r list \<Rightarrow> db_error + 'r list" where
  "rls_insert chk new rows =
     (if list_all chk new then Inr (rows @ new) else Inl RlsViolation)"

subsection \<open>The statements the client issues\<close>

text \<open>\<^verbatim>\<open>from('cart_items').select(...)\<close> with the caller's filter.\<close>

definition select_cart_items ::
  "uuid option \<Rightarrow> (cart_item_row \<Rightarrow> bool) \<Rightarrow> db \<Rightarrow> cart_item_row list" where
  "select_cart_items uid flt d = rls_select (cart_items_policy uid SELECT) flt (cart_items d)"

text \<open>
  \<^verbatim>\<open>.maybeSingle()\<close>: the row when exactly one matches, \<^verbatim>\<open>null\<close> data when none does, and
  an error (again with \<^verbatim>\<open>null\<close> data) when several do. The client reads only \<^verbatim>\<open>data\<close>.
\<close>

definition maybeSingle :: "'r list \<Rightarrow> 'r option" where
  "maybeSingle rows = (case rows of [r] \<Rightarrow> Some r | _ \<Rightarrow> None)"

text \<open>
  \<^verbatim>\<open>from('cart_items').insert({user_id, product_id, quantity})\<close>: the insert policy, the
  foreign key to \<^verbatim>\<open>products\<close>, \<^verbatim>\<open>CHECK (quantity > 0)\<close> and \<^verbatim>\<open>UNIQUE(user_id, product_id)\<close>.
\<close>

definition insert_cart_item :: "uuid option \<Rightarrow> uuid \<Rightarrow> uuid \<Rightarrow> int \<Rightarrow> db \<Rightarrow> db_error + db" where
  "insert_cart_item uid user_id product_id quantity d =
     (let row = \<lparr>ci_id = gen_random_uuid (map ci_id (cart_items d)), ci_user_id = user_id,
                 ci_product_id = product_id, ci_quantity = quantity\<rparr>
      in if \<not> list_ex (\<lambda>p. p_id p = product_id) (products d) then Inl ForeignKeyViolation
         else if \<not> 0 < quantity then Inl CheckViolation
         else if list_ex (\<lambda>r. ci_user_id r = user_id \<and> ci_product_id r = product_id) (cart_items d)
           then Inl UniqueViolation
         else (case rls_insert (cart_items_policy uid INSERT) [row] (cart_items d) of
                 Inl e \<Rightarrow> Inl e
               | Inr rows \<Rightarrow> Inr (d\<lparr>cart_items := rows\<rparr>)))"

text \<open>
  \<^verbatim>\<open>from('cart_items').update({quantity}).eq(...)\<close>: the update policy (its \<^verbatim>\<open>USING\<close> and
  its \<^verbatim>\<open>WITH CHECK\<close>) and \<^verbatim>\<open>CHECK (quantity > 0)\<close> on every row written. The key columns
  are not written, so the uniqueness constraints cannot newly fail.
\<close>

definition update_cart_quantity ::
  "uuid option \<Rightarrow> (cart_item_row \<Rightarrow> bool) \<Rightarrow> int \<Rightarrow> db \<Rightarrow> db_error + db" where
  "update_cart_quantity uid flt quantity d =
     (if list_ex (\<lambda>r. cart_items_policy uid UPDATE r \<and> flt r) (cart_items d) \<and> \<not> 0 < quantity
        then Inl CheckViolation
      else (case rls_update (cart_items_policy uid UPDATE) (cart_items_policy uid UPDATE) flt
                   (\<lambda>r. r\<lparr>ci_quantity := quantity\<rparr>) (cart_items d) of
              Inl e \<Rightarrow> Inl e
            | Inr rows \<Rightarrow> Inr (d\<lparr>cart_items := rows\<rparr>)))"

text \<open>\<^verbatim>\<open>from('cart_items').delete().eq(...)\<close>: deleting no row is not an error.\<close>

definition delete_cart_items ::
  "uuid option \<Rightarrow> (cart_item_row \<Rightarrow> bool) \<Rightarrow> db \<Rightarrow> db_error + db" where
  "delete_cart_items uid flt d =
     Inr (d\<lparr>cart_items := rls_delete (cart_items_policy uid DELETE) flt (cart_items d)\<rparr>)"

text \<open>
  \<^verbatim>\<open>from('orders').insert({...}).select().single()\<close>: the insert policy and
  \<^verbatim>\<open>CHECK (total >= 0)\<close>; the statement returns the row it stored.
\<close>

definition insert_order ::
  "uuid option \<Rightarrow> uuid \<Rightarrow> rat \<Rightarrow> string \<Rightarrow> string \<Rightarrow> string \<Rightarrow> string \<Rightarrow> db
     \<Rightarrow> db_error + (order_row \<times> db)" where
  "insert_order uid user_id amount status customer_name customer_email customer_address d =
     (let row = \<lparr>o_id = gen_random_uuid (map o_id (orders d)), o_user_id = user_id,
                 o_total = amount, o_status = status, o_customer_name = customer_name,
                 o_customer_email = customer_email, o_customer_address = customer_address\<rparr>
      in if \<not> 0 \<le> amount then Inl CheckViolation
         else (case rls_insert (orders_policy uid INSERT) [row] (orders d) of
                 Inl e \<Rightarrow> Inl e
               | Inr rows \<Rightarrow> Inr (row, d\<lparr>orders := rows\<rparr>)))"

text \<open>
  \<^verbatim>\<open>from('order_items').insert(orderItems)\<close>: one statement for the whole array, so either
  every row is stored or none is. Each row needs the insert policy, both foreign keys,
  \<^verbatim>\<open>CHECK (quantity > 0)\<close> and \<^verbatim>\<open>CHECK (price >= 0)\<close>. The keys of the new rows are
  generated one after the other.
\<close>

fun number_order_items ::
  "uuid list \<Rightarrow> (uuid \<times> uuid \<times> int \<times> rat) list \<Rightarrow> order_item_row list" where
  "number_order_items used [] = []"
| "number_order_items used ((order_id, product_id, quantity, price) # rest) =
     (let k = gen_random_uuid used
      in \<lparr>oi_id = k, oi_order_id = order_id, oi_product_id = product_id,
           oi_quantity = quantity, oi_price = price\<rparr> # number_order_items (k # used) rest)"

definition insert_order_items ::
  "uuid option \<Rightarrow> (uuid \<times> uuid \<times> int \<times> rat) list \<Rightarrow> db \<Rightarrow> db_error + db" where
  "insert_order_items uid new d =
     (let rows = number_order_items (map oi_id (order_items d)) new
      in if \<not> list_all (\<lambda>r. list_ex (\<lambda>ord. o_id ord = oi_order_id r) (orders d)) rows
           then Inl ForeignKeyViolation
         else if \<not> list_all (\<lambda>r. list_ex (\<lambda>p. p_id p = oi_product_id r) (products d)) rows
           then Inl ForeignKeyViolation
         else if \<not> list_all (\<lambda>r. 0 < oi_quantity r \<and> 0 \<le> oi_price r) rows then Inl CheckViolation
         else (case rls_insert (order_items_policy (orders d) uid INSERT) rows (order_items d) of
                 Inl e \<Rightarrow> Inl e
               | Inr rows' \<Rightarrow> Inr (d\<lparr>order_items := rows'\<rparr>)))"

text \<open>
  The handlers below \<^verbatim>\<open>await\<close> most statements without reading their result: a statement
  that fails leaves the database as it was and the handler goes on.
\<close>

definition ignoring_error :: "db \<Rightarrow> db_error + db \<Rightarrow> db" where
  "ignoring_error d result = (case result of Inl e \<Rightarrow> d | Inr d' \<Rightarrow> d')"

text \<open>
  Failures of the storage itself (network, service) during checkout: one flag per statement
  of \<^verbatim>\<open>handlePlaceOrder\<close>. A statement whose flag is set fails and writes nothing.
\<close>

record faults =
  order_insert_fails :: bool
  order_items_insert_fails :: bool
  cart_delete_fails :: bool

definition no_faults :: faults where
  "no_faults = \<lparr>order_insert_fails = False, order_items_insert_fails = False,
                cart_delete_fails = False\<rparr>"

definition storage :: "bool \<Rightarrow> db_error + 'a \<Rightarrow> db_error + 'a" where
  "storage fails result = (if fails then Inl StorageFailure else result)"

subsection \<open>What a handler shows\<close>

record effects =
  showAuthModal :: bool
  alerts :: "string list"
  events :: "string list"
  orderPlaced :: bool
  closed :: bool

definition no_effects :: effects where
  "no_effects = \<lparr>showAuthModal = False, alerts = [], events = [], orderPlaced = False,
                 closed = False\<rparr>"

subsection \<open>Cart view (\<^verbatim>\<open>fetchCartItems\<close> of ShoppingCart and Checkout)\<close>

text \<open>
  \<^verbatim>\<open>select('id, quantity, product:products(...)').eq('user_id', user.id)\<close>: the caller's cart
  rows, each with the product it references. The interface \<^verbatim>\<open>CartItem\<close> declares the product
  as present (the foreign key, with \<^verbatim>\<open>ON DELETE CASCADE\<close>, keeps it so); a row whose product
  were missing does not appear in the view. The two components select different product
  columns; the view carries the whole product row.
\<close>

record CartItem =
  item_id :: uuid
  item_quantity :: int
  item_product :: product_row

definition join_product :: "db \<Rightarrow> cart_item_row \<Rightarrow> CartItem list" where
  "join_product d r =
     (case find (\<lambda>p. p_id p = ci_product_id r) (products d) of
        None \<Rightarrow> []
      | Some p \<Rightarrow> [\<lparr>item_id = ci_id r, item_quantity = ci_quantity r, item_product = p\<rparr>])"

definition fetchCartItems :: "uuid option \<Rightarrow> CartItem list \<Rightarrow> db \<Rightarrow> CartItem list" where
  "fetchCartItems user cartItems d =
     (case user of
        None \<Rightarrow> cartItems
      | Some uid \<Rightarrow>
          concat (map (join_product d) (select_cart_items user (\<lambda>r. ci_user_id r = uid) d)))"

subsection \<open>Checkout (\<^verbatim>\<open>unnamed/part_001\<close>)\<close>

text \<open>
  The component's \<^verbatim>\<open>total\<close>, named \<open>total_sum\<close> here:
  \<^verbatim>\<open>cartItems.reduce((sum, item) => sum + (item.product.price * item.quantity), 0)\<close>.
  The handler's \<^verbatim>\<open>loading\<close> flag and the timer that closes the dialog three seconds after
  a placed order touch neither the database nor what is reported, and are left out.
\<close>

definition total_sum :: "CartItem list \<Rightarrow> rat" where
  "total_sum cartItems =
     foldl (\<lambda>sum item. sum + p_price (item_product item) * of_int (item_quantity item)) 0 cartItems"

definition handlePlaceOrder ::
  "faults \<Rightarrow> uuid option \<Rightarrow> CartItem list \<Rightarrow> string \<Rightarrow> string \<Rightarrow> string \<Rightarrow> db \<Rightarrow> effects \<times> db" where
  "handlePlaceOrder f user cartItems customerName customerEmail customerAddress d =
     (case user of
        None \<Rightarrow> (no_effects, d)
      | Some uid \<Rightarrow>
          (case storage (order_insert_fails f)
                  (insert_order user uid (total_sum cartItems) ''pending''
                     customerName customerEmail customerAddress d) of
             Inl orderError \<Rightarrow>
               (no_effects\<lparr>alerts := [''Error placing order. Please try again.'']\<rparr>, d)
           | Inr (order, d1) \<Rightarrow>
               (let orderItems =
                      map (\<lambda>item. (o_id order, p_id (item_product item), item_quantity item,
                                    p_price (item_product item))) cartItems;
                    d2 = ignoring_error d1
                           (storage (order_items_insert_fails f)
                              (insert_order_items user orderItems d1));
                    d3 = ignoring_error d2
                           (storage (cart_delete_fails f)
                              (delete_cart_items user (\<lambda>r. ci_user_id r = uid) d2))
                in (no_effects\<lparr>orderPlaced := True, events := [''cart-updated'']\<rparr>, d3))))"

text \<open>
  The checkout as one operation: the cart is read when the checkout opens
  (\<^verbatim>\<open>fetchCartItems\<close> in the effect hook) and the order is placed from what was read, with
  no other write in between.
\<close>

definition placeOrder ::
  "faults \<Rightarrow> uuid option \<Rightarrow> string \<Rightarrow> string \<Rightarrow> string \<Rightarrow> db \<Rightarrow> effects \<times> db" where
  "placeOrder f user customerName customerEmail customerAddress d =
     handlePlaceOrder f user (fetchCartItems user [] d) customerName customerEmail customerAddress d"

subsection \<open>Adding to the cart (\<^verbatim>\<open>unnamed/part_002\<close>, \<^verbatim>\<open>unnamed/part_004\<close>)\<close>

text \<open>ProductDetail: the quantity is the one chosen in the dialog.\<close>

definition handleAddToCart :: "uuid option \<Rightarrow> product_row \<Rightarrow> int \<Rightarrow> db \<Rightarrow> effects \<times> db" where
  "handleAddToCart user product quantity d =
     (case user of
        None \<Rightarrow> (no_effects\<lparr>showAuthModal := True\<rparr>, d)
      | Some uid \<Rightarrow>
          (let existingItem =
                 maybeSingle (select_cart_items user
                   (\<lambda>r. ci_user_id r = uid \<and> ci_product_id r = p_id product) d);
               d' = (case existingItem of
                       Some e \<Rightarrow>
                         ignoring_error d (update_cart_quantity user (\<lambda>r. ci_id r = ci_id e)
                                        (ci_quantity e + quantity) d)
                     | None \<Rightarrow>
                         ignoring_error d (insert_cart_item user uid (p_id product) quantity d))
           in (no_effects\<lparr>events := [''cart-updated''], closed := True\<rparr>, d')))"

text \<open>ProductCatalog: the button on a product card adds one.\<close>

definition handleAddToCart_catalog :: "uuid option \<Rightarrow> product_row \<Rightarrow> db \<Rightarrow> effects \<times> db" where
  "handleAddToCart_catalog user product d =
     (case user of
        None \<Rightarrow> (no_effects\<lparr>showAuthModal := True\<rparr>, d)
      | Some uid \<Rightarrow>
          (let existingItem =
                 maybeSingle (select_cart_items user
                   (\<lambda>r. ci_user_id r = uid \<and> ci_product_id r = p_id product) d);
               d' = (case existingItem of
                       Some e \<Rightarrow>
                         ignoring_error d (update_cart_quantity user (\<lambda>r. ci_id r = ci_id e)
                                        (ci_quantity e + 1) d)
                     | None \<Rightarrow>
                         ignoring_error d (insert_cart_item user uid (p_id product) 1 d))
           in (no_effects\<lparr>events := [''cart-updated'']\<rparr>, d')))"

subsection \<open>Changing the cart (\<^verbatim>\<open>src/components/ShoppingCart.tsx\<close>)\<close>


definition removeItem ::
  "uuid option \<Rightarrow> CartItem list \<Rightarrow> uuid \<Rightarrow> db \<Rightarrow> effects \<times> CartItem list \<times> db" where
  "removeItem user cartItems itemId d =
     (let d' = ignoring_error d (delete_cart_items user (\<lambda>r. ci_id r = itemId) d)
      in (no_effects\<lparr>events := [''cart-updated'']\<rparr>, fetchCartItems user cartItems d', d'))"

subsection \<open>Catalog filter (\<^verbatim>\<open>unnamed/part_004\<close>)\<close>






subsection \<open>Example data\<close>

text \<open>The first product of the seed catalogue, and a catalogue holding only it.\<close>

definition headphones :: product_row where
  "headphones =
     \<lparr>p_id = ''headphones'', p_name = ''Wireless Headphones'',
      p_description = ''Premium noise-cancelling wireless headphones with 30-hour battery life'',
      p_price = 19999 / 100, p_image_url = [], p_category_id = Some ''electronics'',
      p_stock = 50, p_featured = True\<rparr>"

definition seed_db :: db where
  "seed_db = \<lparr>products = [headphones], cart_items = [], orders = [], order_items = []\<rparr>"

definition cart_line :: "uuid \<Rightarrow> uuid \<Rightarrow> uuid \<Rightarrow> int \<Rightarrow> cart_item_row" where
  "cart_line k u p q = \<lparr>ci_id = k, ci_user_id = u, ci_product_id = p, ci_quantity = q\<rparr>"

text \<open>A database in which alice's cart holds two headphones.\<close>

definition alice_db :: db where
  "alice_db = seed_db\<lparr>cart_items := [cart_line ''c1'' ''alice'' ''headphones'' 2]\<rparr>"

text \<open>Cart lines, orders and order lines of two users, alice and bob.\<close>

definition two_carts :: "cart_item_row list" where
  "two_carts =
     [cart_line ''c1'' ''alice'' ''headphones'' 2, cart_line ''c2'' ''bob'' ''headphones'' 1]"

definition order_of :: "uuid \<Rightarrow> uuid \<Rightarrow> order_row" where
  "order_of k u =
     \<lparr>o_id = k, o_user_id = u, o_total = 0, o_status = ''pending'',
      o_customer_name = [], o_customer_email = [], o_customer_address = []\<rparr>"

definition order_line :: "uuid \<Rightarrow> uuid \<Rightarrow> order_item_row" where
  "order_line k oid =
     \<lparr>oi_id = k, oi_order_id = oid, oi_product_id = ''headphones'', oi_quantity = 1,
      oi_price = 1\<rparr>"

subsection \<open>Declared constraints\<close>


section \<open>Properties\<close>

subsection \<open>Catalog filter\<close>




subsection \<open>Checkout leaves the catalogue alone\<close>

lemma ignoring_error_products:
  "(\<And>d'. r = Inr d' \<Longrightarrow> products d' = products d) \<Longrightarrow> products (ignoring_error d r) = products d"
  unfolding ignoring_error_def by (cases r) auto

lemma insert_order_products:
  "insert_order uid u a s n e ad d = Inr (ord, d') \<Longrightarrow> products d' = products d"
  unfolding insert_order_def Let_def by (auto split: if_splits sum.splits)

lemma insert_order_items_products:
  "insert_order_items uid new d = Inr d' \<Longrightarrow> products d' = products d"
  unfolding insert_order_items_def Let_def by (auto split: if_splits sum.splits)

lemma delete_cart_items_products:
  "delete_cart_items uid flt d = Inr d' \<Longrightarrow> products d' = products d"
  unfolding delete_cart_items_def by auto

lemma handlePlaceOrder_products:
  "products (snd (handlePlaceOrder f user cartItems cn ce ca d)) = products d"
proof (cases user)
  case None
  then show ?thesis unfolding handlePlaceOrder_def by simp
next
  case (Some uid)
  show ?thesis
  proof (cases "storage (order_insert_fails f)
                  (insert_order user uid (total_sum cartItems) ''pending'' cn ce ca d)")
    case (Inl e)
    with Some show ?thesis unfolding handlePlaceOrder_def by simp
  next
    case (Inr res)
    obtain ord d1 where res: "res = (ord, d1)" by (cases res)
    from Inr res have d1: "products d1 = products d"
      unfolding storage_def by (auto split: if_splits dest: insert_order_products)
    define items where
      "items = map (\<lambda>item. (o_id ord, p_id (item_product item), item_quantity item,
                            p_price (item_product item))) cartItems"
    define d2 where
      "d2 = ignoring_error d1
              (storage (order_items_insert_fails f) (insert_order_items user items d1))"
    have d2: "products d2 = products d1"
      unfolding d2_def storage_def
      by (rule ignoring_error_products) (auto split: if_splits dest: insert_order_items_products)
    define d3 where
      "d3 = ignoring_error d2
              (storage (cart_delete_fails f)
                 (delete_cart_items user (\<lambda>r. ci_user_id r = uid) d2))"
    have d3: "products d3 = products d2"
      unfolding d3_def storage_def
      by (rule ignoring_error_products) (auto split: if_splits dest: delete_cart_items_products)
    have "snd (handlePlaceOrder f user cartItems cn ce ca d) = d3"
      unfolding handlePlaceOrder_def using Some Inr res
      by (simp add: Let_def d3_def d2_def items_def)
    with d1 d2 d3 show ?thesis by simp
  qed
qed

lemma overstock_example:
  "(let d' = snd (placeOrder no_faults (Some ''alice'') ''A'' ''a@x.com'' ''1 Main St''
                    (seed_db\<lparr>cart_items := [cart_line ''c1'' ''alice'' ''headphones'' 60]\<rparr>))
    in list_ex (\<lambda>oi. list_ex (\<lambda>p. p_id p = oi_product_id oi \<and> p_stock p < oi_quantity oi)
                        (products d')) (order_items d'))"
  by code_simp

text \<open>
  C10. Placing an order never writes to the products table: whatever the caller, the cart
  snapshot, the customer data and the storage faults, the products table after
  \<^verbatim>\<open>handlePlaceOrder\<close> is the one before. In particular stock is not decremented: ordering
  60 headphones with 50 in stock stores an order line of 60 and leaves the stock at 50.
\<close>

theorem handlePlaceOrder_never_writes_products:
  "products (snd (handlePlaceOrder f user cartItems customerName customerEmail customerAddress d))
     = products d
   \<and> (let d' = snd (placeOrder no_faults (Some ''alice'') ''A'' ''a@x.com'' ''1 Main St''
                      (seed_db\<lparr>cart_items := [cart_line ''c1'' ''alice'' ''headphones'' 60]\<rparr>))
      in list_ex (\<lambda>oi. list_ex (\<lambda>p. p_id p = oi_product_id oi \<and> p_stock p < oi_quantity oi)
                          (products d')) (order_items d'))"
  using handlePlaceOrder_products overstock_example by blast

subsection \<open>Changing and removing cart lines\<close>


lemma delete_cart_items_eq:
  "delete_cart_items uid flt d =
     Inr (d\<lparr>cart_items :=
              filter (\<lambda>r. \<not> (uid = Some (ci_user_id r) \<and> flt r)) (cart_items d)\<rparr>)"
  unfolding delete_cart_items_def rls_delete_def cart_items_policy_def by simp

lemma fetchCartItems_idem:
  "fetchCartItems user (fetchCartItems user cartItems d) d = fetchCartItems user cartItems d"
  by (cases user) (simp_all add: fetchCartItems_def)

lemma removeItem_eq:
  "removeItem user cartItems itemId d =
    (let d' = d\<lparr>cart_items :=
                  filter (\<lambda>r. \<not> (user = Some (ci_user_id r) \<and> ci_id r = itemId)) (cart_items d)\<rparr>
     in (no_effects\<lparr>events := [''cart-updated'']\<rparr>, fetchCartItems user cartItems d', d'))"
  unfolding removeItem_def by (simp add: delete_cart_items_eq ignoring_error_def)



text \<open>
  C8. \<^verbatim>\<open>removeItem\<close> is idempotent: run again on the state it produced (database and
  component cart), it produces that state again. On an identifier that no cart line has,
  the delete statement succeeds, the database is unchanged and nothing is alerted.
\<close>

theorem removeItem_idempotent:
  "removeItem user (fst (snd (removeItem user cartItems itemId d))) itemId
       (snd (snd (removeItem user cartItems itemId d)))
     = removeItem user cartItems itemId d
   \<and> (\<not> list_ex (\<lambda>r. ci_id r = itemId) (cart_items d) \<longrightarrow>
        delete_cart_items user (\<lambda>r. ci_id r = itemId) d = Inr d \<and>
        snd (snd (removeItem user cartItems itemId d)) = d \<and>
        alerts (fst (removeItem user cartItems itemId d)) = [])"
proof (intro conjI impI)
  show "removeItem user (fst (snd (removeItem user cartItems itemId d))) itemId
       (snd (snd (removeItem user cartItems itemId d)))
     = removeItem user cartItems itemId d"
    by (simp add: removeItem_eq Let_def fetchCartItems_idem)
next
  assume "\<not> list_ex (\<lambda>r. ci_id r = itemId) (cart_items d)"
  then have keep:
    "filter (\<lambda>r. \<not> (user = Some (ci_user_id r) \<and> ci_id r = itemId)) (cart_items d) = cart_items d"
    by (simp add: list_ex_iff filter_id_conv)
  show "delete_cart_items user (\<lambda>r. ci_id r = itemId) d = Inr d"
    using keep by (simp add: delete_cart_items_eq)
  show "snd (snd (removeItem user cartItems itemId d)) = d"
    using keep by (simp add: removeItem_eq Let_def)
  show "alerts (fst (removeItem user cartItems itemId d)) = []"
    by (simp add: removeItem_eq Let_def no_effects_def)
qed

theorem removeItem_idempotent_witness:
  "\<not> list_ex (\<lambda>r. ci_id r = ''c9'') (cart_items alice_db) \<and>
   delete_cart_items (Some ''alice'') (\<lambda>r. ci_id r = ''c9'') alice_db = Inr alice_db \<and>
   snd (snd (removeItem (Some ''alice'') [] ''c9'' alice_db)) = alice_db \<and>
   alerts (fst (removeItem (Some ''alice'') [] ''c9'' alice_db)) = []"
  using removeItem_idempotent [of "Some ''alice''" "[]" "''c9''" alice_db]
  by (simp add: alice_db_def seed_db_def cart_line_def)

subsection \<open>Row-level security isolates the users\<close>

lemma rls_update_Inr:
  "rls_update vis chk flt upd rows = Inr rows' \<Longrightarrow>
     rows' = map (\<lambda>r. if vis r \<and> flt r then upd r else r) rows \<and>
     (\<forall>r\<in>set rows. vis r \<and> flt r \<longrightarrow> chk (upd r))"
  unfolding rls_update_def by (auto simp: list_ex_iff split: if_splits)

lemma filter_map_owner:
  assumes "\<And>r. r \<in> set rows \<Longrightarrow> hit r \<Longrightarrow> \<not> own r \<and> \<not> own (upd r)"
  shows "filter own (map (\<lambda>r. if hit r then upd r else r) rows) = filter own rows"
  using assms by (induction rows) auto

text \<open>
  C2. For distinct identities \<open>a\<close> and \<open>b\<close> and any filter the caller \<open>a\<close> supplies:
  a select on the cart lines or on the orders returns no row owned by \<open>b\<close>; an update or
  a delete on the cart lines leaves the rows owned by \<open>b\<close> exactly as they were (and adds
  none); an update or a delete on the orders changes nothing at all (there is no policy for
  them); an order line is returned by a select only if an order with the identifier it
  references is owned by \<open>a\<close>, and an insert of order lines succeeds only if that holds
  for each of them.
\<close>

theorem rls_isolation:
  assumes "a \<noteq> b"
  shows
   "(\<forall>r\<in>set (rls_select (cart_items_policy (Some a) SELECT) flt carts). ci_user_id r \<noteq> b) \<and>
    (case rls_update (cart_items_policy (Some a) UPDATE) (cart_items_policy (Some a) UPDATE)
            flt upd carts of
       Inl e \<Rightarrow> True
     | Inr carts' \<Rightarrow> filter (\<lambda>r. ci_user_id r = b) carts' = filter (\<lambda>r. ci_user_id r = b) carts) \<and>
    filter (\<lambda>r. ci_user_id r = b) (rls_delete (cart_items_policy (Some a) DELETE) flt carts)
      = filter (\<lambda>r. ci_user_id r = b) carts \<and>
    (\<forall>r\<in>set (rls_select (orders_policy (Some a) SELECT) oflt ords). o_user_id r \<noteq> b) \<and>
    rls_update (orders_policy (Some a) UPDATE) (orders_policy (Some a) UPDATE) oflt oupd ords
      = Inr ords \<and>
    rls_delete (orders_policy (Some a) DELETE) oflt ords = ords \<and>
    (\<forall>r\<in>set (rls_select (order_items_policy ords (Some a) SELECT) iflt lines).
        \<exists>ord\<in>set ords. o_id ord = oi_order_id r \<and> o_user_id ord = a) \<and>
    (\<forall>lines'. rls_insert (order_items_policy ords (Some a) INSERT) new lines = Inr lines' \<longrightarrow>
        (\<forall>r\<in>set new. \<exists>ord\<in>set ords. o_id ord = oi_order_id r \<and> o_user_id ord = a))"
proof (intro conjI)
  show "\<forall>r\<in>set (rls_select (cart_items_policy (Some a) SELECT) flt carts). ci_user_id r \<noteq> b"
    using assms unfolding rls_select_def cart_items_policy_def by auto
  show "case rls_update (cart_items_policy (Some a) UPDATE) (cart_items_policy (Some a) UPDATE)
            flt upd carts of
       Inl e \<Rightarrow> True
     | Inr carts' \<Rightarrow> filter (\<lambda>r. ci_user_id r = b) carts' = filter (\<lambda>r. ci_user_id r = b) carts"
  proof (cases "rls_update (cart_items_policy (Some a) UPDATE) (cart_items_policy (Some a) UPDATE)
            flt upd carts")
    case (Inl e)
    then show ?thesis by simp
  next
    case (Inr carts')
    note r = rls_update_Inr [OF Inr]
    have "filter (\<lambda>r. ci_user_id r = b)
            (map (\<lambda>r. if cart_items_policy (Some a) UPDATE r \<and> flt r then upd r else r) carts)
          = filter (\<lambda>r. ci_user_id r = b) carts"
    proof (rule filter_map_owner)
      fix r assume "r \<in> set carts" and "cart_items_policy (Some a) UPDATE r \<and> flt r"
      with r have "cart_items_policy (Some a) UPDATE r" and "cart_items_policy (Some a) UPDATE (upd r)"
        by auto
      then show "ci_user_id r \<noteq> b \<and> ci_user_id (upd r) \<noteq> b"
        using assms unfolding cart_items_policy_def by auto
    qed
    with r Inr show ?thesis by simp
  qed
  show "filter (\<lambda>r. ci_user_id r = b) (rls_delete (cart_items_policy (Some a) DELETE) flt carts)
      = filter (\<lambda>r. ci_user_id r = b) carts"
    using assms unfolding rls_delete_def cart_items_policy_def
    by (auto intro: filter_cong)
  show "\<forall>r\<in>set (rls_select (orders_policy (Some a) SELECT) oflt ords). o_user_id r \<noteq> b"
    using assms unfolding rls_select_def orders_policy_def by auto
  show "rls_update (orders_policy (Some a) UPDATE) (orders_policy (Some a) UPDATE) oflt oupd ords
      = Inr ords"
    unfolding rls_update_def orders_policy_def by (simp add: list_ex_iff)
  show "rls_delete (orders_policy (Some a) DELETE) oflt ords = ords"
    unfolding rls_delete_def orders_policy_def by simp
  show "\<forall>r\<in>set (rls_select (order_items_policy ords (Some a) SELECT) iflt lines).
        \<exists>ord\<in>set ords. o_id ord = oi_order_id r \<and> o_user_id ord = a"
    unfolding rls_select_def order_items_policy_def own_order_exists_def
    by (auto simp: list_ex_iff)
  show "\<forall>lines'. rls_insert (order_items_policy ords (Some a) INSERT) new lines = Inr lines' \<longrightarrow>
        (\<forall>r\<in>set new. \<exists>ord\<in>set ords. o_id ord = oi_order_id r \<and> o_user_id ord = a)"
    unfolding rls_insert_def order_items_policy_def own_order_exists_def
    by (auto simp: list_ex_iff list_all_iff split: if_splits)
qed

theorem rls_isolation_witness:
  "''alice'' \<noteq> ''bob'' \<and>
   rls_select (cart_items_policy (Some ''alice'') SELECT) (\<lambda>r. ci_id r = ''c2'') two_carts = [] \<and>
   rls_update (cart_items_policy (Some ''alice'') UPDATE) (cart_items_policy (Some ''alice'') UPDATE)
     (\<lambda>r. True) (\<lambda>r. r\<lparr>ci_quantity := 7\<rparr>) two_carts
     = Inr [cart_line ''c1'' ''alice'' ''headphones'' 7, cart_line ''c2'' ''bob'' ''headphones'' 1] \<and>
   rls_delete (cart_items_policy (Some ''alice'') DELETE) (\<lambda>r. True) two_carts
     = [cart_line ''c2'' ''bob'' ''headphones'' 1] \<and>
   rls_select (order_items_policy [order_of ''o1'' ''alice'', order_of ''o2'' ''bob''] (Some ''alice'') SELECT)
     (\<lambda>r. True) [order_line ''i1'' ''o1'', order_line ''i2'' ''o2''] = [order_line ''i1'' ''o1''] \<and>
   rls_insert (order_items_policy [order_of ''o1'' ''alice'', order_of ''o2'' ''bob''] (Some ''alice'') INSERT)
     [order_line ''i3'' ''o1''] [] = Inr [order_line ''i3'' ''o1''] \<and>
   rls_insert (order_items_policy [order_of ''o1'' ''alice'', order_of ''o2'' ''bob''] (Some ''alice'') INSERT)
     [order_line ''i3'' ''o2''] [] = Inl RlsViolation"
  using rls_isolation [where a = "''alice''" and b = "''bob''" and carts = two_carts
          and flt = "\<lambda>r. True" and upd = "\<lambda>r. r\<lparr>ci_quantity := 7\<rparr>"
          and ords = "[order_of ''o1'' ''alice'', order_of ''o2'' ''bob'']"
          and oflt = "\<lambda>r. True" and oupd = "\<lambda>r. r" and iflt = "\<lambda>r. True"
          and lines = "[order_line ''i1'' ''o1'', order_line ''i2'' ''o2'']"
          and new = "[order_line ''i3'' ''o1'']"]
  by (simp add: rls_select_def rls_update_def rls_delete_def rls_insert_def cart_items_policy_def
        order_items_policy_def own_order_exists_def two_carts_def cart_line_def order_of_def
        order_line_def)

subsection \<open>Adding a product twice merges into one line\<close>



lemma maybeSingle_simps [simp]:
  "maybeSingle [] = None" "maybeSingle [r] = Some r"
  unfolding maybeSingle_def by simp_all










subsection \<open>Checkout\<close>





















text \<open>The concrete scenario of the specification.\<close>

lemma headphones_scenario:
  "placeOrder no_faults (Some ''u'') ''A'' ''a@x.com'' ''1 Main St''
      (snd (handleAddToCart (Some ''u'') headphones 2 seed_db)) =
     (no_effects\<lparr>orderPlaced := True, events := [''cart-updated'']\<rparr>,
      seed_db\<lparr>orders := [\<lparr>o_id = ''0'', o_user_id = ''u'', o_total = 39998 / 100,
                            o_status = ''pending'', o_customer_name = ''A'',
                            o_customer_email = ''a@x.com'', o_customer_address = ''1 Main St''\<rparr>],
              order_items := [\<lparr>oi_id = ''0'', oi_order_id = ''0'', oi_product_id = ''headphones'',
                                oi_quantity = 2, oi_price = 19999 / 100\<rparr>]\<rparr>)"
  by code_simp




lemma handlePlaceOrder_order_insert_failure:
  "order_insert_fails f \<Longrightarrow>
     handlePlaceOrder f (Some u) cartItems cn ce ca d =
       (no_effects\<lparr>alerts := [''Error placing order. Please try again.'']\<rparr>, d)"
  unfolding handlePlaceOrder_def storage_def by simp

text \<open>
  C5. Only a failure of the first statement is surfaced. With two headphones in alice's
  cart: when the insert of the order lines fails, the component still shows the order as
  placed and alerts nothing, the order row stays (with no order line) and the cart is
  cleared; when the clearing of the cart fails, the component shows the order as placed
  and alerts nothing, and the cart keeps its lines.
\<close>

theorem placeOrder_later_failure_reported_as_success:
  "placeOrder (no_faults\<lparr>order_items_insert_fails := True\<rparr>) (Some ''alice'')
       ''A'' ''a@x.com'' ''1 Main St'' alice_db =
     (no_effects\<lparr>orderPlaced := True, events := [''cart-updated'']\<rparr>,
      seed_db\<lparr>orders := [\<lparr>o_id = ''0'', o_user_id = ''alice'', o_total = 39998 / 100,
                            o_status = ''pending'', o_customer_name = ''A'',
                            o_customer_email = ''a@x.com'', o_customer_address = ''1 Main St''\<rparr>]\<rparr>) \<and>
   placeOrder (no_faults\<lparr>cart_delete_fails := True\<rparr>) (Some ''alice'')
       ''A'' ''a@x.com'' ''1 Main St'' alice_db =
     (no_effects\<lparr>orderPlaced := True, events := [''cart-updated'']\<rparr>,
      alice_db\<lparr>orders := [\<lparr>o_id = ''0'', o_user_id = ''alice'', o_total = 39998 / 100,
                            o_status = ''pending'', o_customer_name = ''A'',
                            o_customer_email = ''a@x.com'', o_customer_address = ''1 Main St''\<rparr>],
               order_items := [\<lparr>oi_id = ''0'', oi_order_id = ''0'', oi_product_id = ''headphones'',
                                oi_quantity = 2, oi_price = 19999 / 100\<rparr>]\<rparr>) \<and>
   alerts (no_effects\<lparr>orderPlaced := True, events := [''cart-updated'']\<rparr>) = []"
  by code_simp

text \<open>
  C6 (as the code has it). With no authenticated identity, neither adding to the cart nor
  placing an order writes anything. Adding to the cart (from the product dialog or from a
  product card) opens the sign-in dialog; placing an order returns silently, with no
  dialog, alert or event.
\<close>

theorem unauthenticated_no_writes:
  "handleAddToCart None product quantity d = (no_effects\<lparr>showAuthModal := True\<rparr>, d) \<and>
   handleAddToCart_catalog None product d = (no_effects\<lparr>showAuthModal := True\<rparr>, d) \<and>
   handlePlaceOrder f None cartItems cn ce ca d = (no_effects, d)"
  unfolding handleAddToCart_def handleAddToCart_catalog_def handlePlaceOrder_def by simp


text \<open>
  C6 (as stated) fails for the checkout: with no identity, \<^verbatim>\<open>handlePlaceOrder\<close> signals
  nothing at all.
\<close>

theorem placeOrder_unauthenticated_counterexample:
  "handlePlaceOrder no_faults None [] ''A'' ''a@x.com'' ''1 Main St'' seed_db = (no_effects, seed_db) \<and>
   showAuthModal no_effects = False \<and> alerts no_effects = [] \<and> events no_effects = []"
  by code_simp

end
